theory Spec2Isabelle
  imports Complex_Main
begin

section \<open>Python values\<close>

text \<open>
  The client passes caller-supplied Python objects around and only looks at their type
  (\<^verbatim>\<open>type(x) != dict\<close>), their truth value (\<^verbatim>\<open>if payload\<close>), their keys and, through
  \<^verbatim>\<open>json.dumps\<close>, their shape. Values are therefore modelled as trees. A dictionary is an
  association list in insertion order. \<open>PObject n b\<close> is an instance of a class named \<open>n\<close>
  that is neither a dictionary nor one of the JSON types (a set, bytes, a user class), with
  truth value \<open>b\<close>. Strings are over the code points 0 to 255. Floats, tuples, subclasses
  of the built-in types and objects that contain themselves are outside the model.
\<close>

datatype py_value =
    PNone
  | PBool bool
  | PInt int
  | PStr string
  | PList "py_value list"
  | PDict "(py_value \<times> py_value) list"
  | PObject string bool

text \<open>Python's truth value testing, as used by \<^verbatim>\<open>if payload\<close> and \<^verbatim>\<open>if visibility := ...\<close>.\<close>

fun truthy :: "py_value \<Rightarrow> bool" where
  "truthy PNone = False"
| "truthy (PBool b) = b"
| "truthy (PInt i) = (i \<noteq> 0)"
| "truthy (PStr s) = (s \<noteq> [])"
| "truthy (PList xs) = (xs \<noteq> [])"
| "truthy (PDict kvs) = (kvs \<noteq> [])"
| "truthy (PObject n b) = b"

text \<open>\<^verbatim>\<open>type(x) == dict\<close>.\<close>

fun is_dict :: "py_value \<Rightarrow> bool" where
  "is_dict (PDict kvs) = True"
| "is_dict v = False"

text \<open>\<^verbatim>\<open>type(x).__name__\<close>, which the messages of \<^verbatim>\<open>json.dumps\<close> quote.\<close>

fun type_name :: "py_value \<Rightarrow> string" where
  "type_name PNone = ''NoneType''"
| "type_name (PBool b) = ''bool''"
| "type_name (PInt i) = ''int''"
| "type_name (PStr s) = ''str''"
| "type_name (PList xs) = ''list''"
| "type_name (PDict kvs) = ''dict''"
| "type_name (PObject n b) = n"

text \<open>\<^verbatim>\<open>k in d\<close> and \<^verbatim>\<open>d.get(k)\<close> on the items of a dictionary.\<close>

definition dict_contains :: "(py_value \<times> py_value) list \<Rightarrow> py_value \<Rightarrow> bool" where
  "dict_contains kvs k = (k \<in> set (map fst kvs))"

definition dict_get :: "(py_value \<times> py_value) list \<Rightarrow> py_value \<Rightarrow> py_value" where
  "dict_get kvs k = (case map_of kvs k of None \<Rightarrow> PNone | Some v \<Rightarrow> v)"

section \<open>Exceptions\<close>

text \<open>
  The exceptions that can leave a call. \<open>ValueError\<close> is raised by the client's own checks
  and by \<^verbatim>\<open>json.dumps\<close>; \<open>TypeError\<close> and \<open>RecursionError\<close> by \<^verbatim>\<open>json.dumps\<close>.
  \<open>UrlscanInvalidPayload\<close> derives from \<^verbatim>\<open>Exception\<close> directly, so it is not a
  \<open>ValueError\<close>. \<open>OtherException\<close> is an exception raised inside the transport that
  \<open>execute\<close> does not catch, and which therefore reaches the caller as it is. Each
  carries its message.
\<close>

datatype py_exception =
    ValueError string
  | TypeError string
  | RecursionError string
  | UrlscanInvalidPayload string
  | OtherException string

section \<open>Serialization: \<^verbatim>\<open>json.dumps\<close> with its default arguments\<close>

text \<open>
  Two limits of the running interpreter decide whether \<^verbatim>\<open>json.dumps\<close> can finish. An
  integer of more than \<open>int_max_str_digits\<close> decimal digits cannot be converted to text
  (\<^verbatim>\<open>sys.get_int_max_str_digits()\<close>, 4300 unless configured, 0 for no limit). The encoder
  recurses once for every list or dictionary it enters, and \<open>recursion_budget\<close> is the
  number of nested containers it can enter before the recursion limit is hit at the point
  of the call.
\<close>

record interpreter =
  int_max_str_digits :: nat
  recursion_budget :: nat

definition digit_char :: "nat \<Rightarrow> char" where
  "digit_char n = char_of (48 + n)"

fun show_nat :: "nat \<Rightarrow> string" where
  "show_nat n = (if n < 10 then [digit_char n] else show_nat (n div 10) @ [digit_char (n mod 10)])"

declare show_nat.simps [simp del]

definition show_int :: "int \<Rightarrow> string" where
  "show_int i = (if i < 0 then CHR ''-'' # show_nat (nat (- i)) else show_nat (nat i))"

text \<open>Whether an integer has more decimal digits than the limit allows.\<close>

definition int_too_long :: "interpreter \<Rightarrow> int \<Rightarrow> bool" where
  "int_too_long interp i =
     (int_max_str_digits interp \<noteq> 0 \<and> 10 ^ int_max_str_digits interp \<le> \<bar>i\<bar>)"

text \<open>\<^verbatim>\<open>int.__repr__\<close>, which raises \<^verbatim>\<open>ValueError\<close> beyond the limit.\<close>

definition int_repr :: "interpreter \<Rightarrow> int \<Rightarrow> py_exception + string" where
  "int_repr interp i =
     (if int_too_long interp i
      then Inl (ValueError (''Exceeds the limit ('' @ show_nat (int_max_str_digits interp)
             @ '' digits) for integer string conversion; use sys.set_int_max_str_digits() to increase the limit''))
      else Inr (show_int i))"

definition hex_digit :: "nat \<Rightarrow> char" where
  "hex_digit n = (if n < 10 then char_of (48 + n) else char_of (87 + n))"

text \<open>
  With \<^verbatim>\<open>ensure_ascii\<close> (the default) the quote, the backslash and every character outside
  the printable ASCII range are escaped.
\<close>

definition json_escape_char :: "char \<Rightarrow> string" where
  "json_escape_char c =
     (if c = CHR 0x22 then [CHR 0x5C, CHR 0x22]
      else if c = CHR 0x5C then [CHR 0x5C, CHR 0x5C]
      else if c = CHR 0x0A then [CHR 0x5C, CHR ''n'']
      else if c = CHR 0x0D then [CHR 0x5C, CHR ''r'']
      else if c = CHR 0x09 then [CHR 0x5C, CHR ''t'']
      else if c = CHR 0x0C then [CHR 0x5C, CHR ''f'']
      else if c = CHR 0x08 then [CHR 0x5C, CHR ''b'']
      else if (of_char c :: nat) < 32 \<or> 126 < (of_char c :: nat)
        then [CHR 0x5C, CHR ''u'', CHR ''0'', CHR ''0'',
              hex_digit (of_char c div 16), hex_digit (of_char c mod 16)]
      else [c])"

definition json_string :: "string \<Rightarrow> string" where
  "json_string s = [CHR 0x22] @ concat (map json_escape_char s) @ [CHR 0x22]"

fun join_with :: "string \<Rightarrow> string list \<Rightarrow> string" where
  "join_with sep [] = []"
| "join_with sep [t] = t"
| "join_with sep (t # u # ts) = t @ sep @ join_with sep (u # ts)"

text \<open>
  A dictionary key must be a string, a number, a boolean or \<^verbatim>\<open>None\<close>; anything else
  makes the encoder raise \<^verbatim>\<open>TypeError\<close>. An integer key is converted like an integer
  value.
\<close>

fun json_key :: "interpreter \<Rightarrow> py_value \<Rightarrow> py_exception + string" where
  "json_key interp (PStr s) = Inr s"
| "json_key interp (PBool b) = Inr (if b then ''true'' else ''false'')"
| "json_key interp PNone = Inr ''null''"
| "json_key interp (PInt i) = int_repr interp i"
| "json_key interp k =
     Inl (TypeError (''keys must be str, int, float, bool or None, not '' @ type_name k))"

text \<open>
  The encoder walks the value in order and raises at the first thing that stops it: an
  object it has no encoding for (\<^verbatim>\<open>TypeError\<close>), an integer beyond the digit limit
  (\<^verbatim>\<open>ValueError\<close>), or a container it can no longer enter (\<^verbatim>\<open>RecursionError\<close>). The
  second argument is the number of containers it can still enter.
\<close>

fun json_encode :: "interpreter \<Rightarrow> nat \<Rightarrow> py_value \<Rightarrow> py_exception + string"
  and json_encode_list :: "interpreter \<Rightarrow> nat \<Rightarrow> py_value list \<Rightarrow> py_exception + string list"
  and json_encode_items ::
    "interpreter \<Rightarrow> nat \<Rightarrow> (py_value \<times> py_value) list \<Rightarrow> py_exception + string list"
where
  "json_encode interp d PNone = Inr ''null''"
| "json_encode interp d (PBool b) = Inr (if b then ''true'' else ''false'')"
| "json_encode interp d (PInt i) = int_repr interp i"
| "json_encode interp d (PStr s) = Inr (json_string s)"
| "json_encode interp d (PList xs) =
     (if d = 0
      then Inl (RecursionError ''maximum recursion depth exceeded while encoding a JSON object'')
      else
        (case json_encode_list interp (d - 1) xs of
           Inl e \<Rightarrow> Inl e
         | Inr ts \<Rightarrow> Inr (''['' @ join_with '', '' ts @ '']'')))"
| "json_encode interp d (PDict kvs) =
     (if d = 0
      then Inl (RecursionError ''maximum recursion depth exceeded while encoding a JSON object'')
      else
        (case json_encode_items interp (d - 1) kvs of
           Inl e \<Rightarrow> Inl e
         | Inr ts \<Rightarrow> Inr (''{'' @ join_with '', '' ts @ ''}'')))"
| "json_encode interp d (PObject n b) =
     Inl (TypeError (''Object of type '' @ n @ '' is not JSON serializable''))"
| "json_encode_list interp d [] = Inr []"
| "json_encode_list interp d (x # xs) =
     (case json_encode interp d x of
        Inl e \<Rightarrow> Inl e
      | Inr t \<Rightarrow>
          (case json_encode_list interp d xs of
             Inl e \<Rightarrow> Inl e
           | Inr ts \<Rightarrow> Inr (t # ts)))"
| "json_encode_items interp d [] = Inr []"
| "json_encode_items interp d ((k, v) # kvs) =
     (case json_key interp k of
        Inl e \<Rightarrow> Inl e
      | Inr ks \<Rightarrow>
          (case json_encode interp d v of
             Inl e \<Rightarrow> Inl e
           | Inr t \<Rightarrow>
               (case json_encode_items interp d kvs of
                  Inl e \<Rightarrow> Inl e
                | Inr ts \<Rightarrow> Inr ((json_string ks @ '': '' @ t) # ts))))"

definition json_dumps :: "interpreter \<Rightarrow> py_value \<Rightarrow> py_exception + string" where
  "json_dumps interp obj = json_encode interp (recursion_budget interp) obj"

text \<open>
  What it means for a value to contain something of a type that has no JSON encoding: an
  object of a foreign class somewhere among its values, or a key that is not a string, a
  number, a boolean or \<^verbatim>\<open>None\<close>.
\<close>

fun key_serializable :: "py_value \<Rightarrow> bool" where
  "key_serializable (PList xs) = False"
| "key_serializable (PDict kvs) = False"
| "key_serializable (PObject n b) = False"
| "key_serializable k = True"

fun serializable :: "py_value \<Rightarrow> bool" where
  "serializable (PObject n b) = False"
| "serializable (PList xs) = list_all serializable xs"
| "serializable (PDict kvs) =
     list_all (\<lambda>kv. key_serializable (fst kv) \<and> serializable (snd kv)) kvs"
| "serializable v = True"

text \<open>
  What it means for a value to stay within the limits: no integer, as a value or as a key,
  is beyond the digit limit, and the containers are nested no deeper than \<open>d\<close>.
\<close>

fun key_within_limits :: "interpreter \<Rightarrow> py_value \<Rightarrow> bool" where
  "key_within_limits interp (PInt i) = (\<not> int_too_long interp i)"
| "key_within_limits interp k = True"

fun within_limits :: "interpreter \<Rightarrow> nat \<Rightarrow> py_value \<Rightarrow> bool" where
  "within_limits interp d (PInt i) = (\<not> int_too_long interp i)"
| "within_limits interp d (PList xs) =
     (d \<noteq> 0 \<and> list_all (within_limits interp (d - 1)) xs)"
| "within_limits interp d (PDict kvs) =
     (d \<noteq> 0 \<and> list_all (\<lambda>kv. key_within_limits interp (fst kv)
                                \<and> within_limits interp (d - 1) (snd kv)) kvs)"
| "within_limits interp d v = True"

section \<open>Requests, responses and effects\<close>

text \<open>
  What \<^verbatim>\<open>Session.request\<close> can raise. The subclasses of \<^verbatim>\<open>requests.RequestException\<close>
  are the transport-level failures: a timeout, a connection error, a retry policy that has
  run out, and the others of that family. \<open>NotRequestException\<close> is any exception outside
  the family. Each carries the text \<^verbatim>\<open>str(e)\<close>.
\<close>

datatype request_error = Timeout | ConnectionError | RetryError | OtherRequestError

datatype transport_exception =
    RequestException request_error string
  | NotRequestException string

record response =
  status_code :: int
  resp_headers :: "(string \<times> string) list"
  content :: string

text \<open>The keyword arguments of \<^verbatim>\<open>Session.request\<close>, as \<open>execute\<close> passes them.\<close>

record request =
  req_method :: string
  req_url :: string
  req_headers :: "(string \<times> string) list"
  req_data :: py_value
  req_params :: py_value

text \<open>
  The requests library sends a body only for a \<^verbatim>\<open>data\<close> argument that is truthy
  (\<^verbatim>\<open>None\<close>, and an empty dictionary alike, give a request without a body).
\<close>

definition has_body :: "request \<Rightarrow> bool" where
  "has_body r = truthy (req_data r)"

text \<open>
  The session the factory configures: the retry strategy, wrapped in an adapter, mounted on
  a URL prefix. Only the mounts made by this code are listed.
\<close>

record retry =
  total :: int
  backoff_factor :: real
  status_forcelist :: "int list"

record http_adapter =
  max_retries :: retry

record py_session =
  mounts :: "(string \<times> http_adapter) list"

text \<open>
  What a call does besides returning: it creates a session (the factory's
  \<^verbatim>\<open>requests.Session()\<close>), enters the session (\<^verbatim>\<open>with self.session\<close>), issues a request over
  it, leaves the \<^verbatim>\<open>with\<close> block (the context manager's exit, which for a requests session
  is \<^verbatim>\<open>close()\<close>), and writes to the logger.
\<close>

datatype event =
    SessionCreate py_session
  | SessionEnter py_session
  | SessionRequest py_session request
  | SessionExit py_session
  | LogWarning string
  | LogError string

text \<open>
  The remote service and the network are not part of the program: a transport says, for a
  session and a request, whether \<^verbatim>\<open>Session.request\<close> returns a response or raises.
\<close>

type_synonym transport = "py_session \<Rightarrow> request \<Rightarrow> transport_exception + response"

section \<open>The transport factory\<close>

definition STATUSES :: "int list" where
  "STATUSES = [429, 500, 502, 503, 504]"

definition urlscan_session :: "int \<Rightarrow> real \<Rightarrow> py_session" where
  "urlscan_session retries backoff =
     (let strategy = \<lparr>total = retries, backoff_factor = backoff, status_forcelist = STATUSES\<rparr>;
          adapter = \<lparr>max_retries = strategy\<rparr>
      in \<lparr>mounts = [(''https://'', adapter)]\<rparr>)"

section \<open>The client\<close>

definition URLSCAN_DOMAIN :: string where
  "URLSCAN_DOMAIN = ''urlscan.io''"

definition QUOTA_URL :: string where
  "QUOTA_URL = ''https://'' @ URLSCAN_DOMAIN @ ''/user/quotas/''"

definition API_URL :: string where
  "API_URL = ''https://'' @ URLSCAN_DOMAIN @ ''/api/v1''"

definition DOM_URL :: string where
  "DOM_URL = ''https://'' @ URLSCAN_DOMAIN @ ''/dom''"

definition SCREENSHOT_URL :: string where
  "SCREENSHOT_URL = ''https://'' @ URLSCAN_DOMAIN @ ''/screenshots''"

definition RESPONSE_URL :: string where
  "RESPONSE_URL = ''https://'' @ URLSCAN_DOMAIN @ ''/responses''"

definition VISIBILITIES :: "py_value list" where
  "VISIBILITIES = [PStr ''public'', PStr ''private'', PStr ''unlisted'']"

text \<open>The text \<^verbatim>\<open>f'{self.VISIBILITIES}'\<close> formats to.\<close>

definition VISIBILITIES_repr :: string where
  "VISIBILITIES_repr =
     ''['' @ [CHR 0x27] @ ''public'' @ [CHR 0x27] @ '', '' @ [CHR 0x27] @ ''private'' @ [CHR 0x27]
       @ '', '' @ [CHR 0x27] @ ''unlisted'' @ [CHR 0x27] @ '']''"

record client =
  headers :: "(string \<times> string) list"
  session :: py_session

text \<open>
  An optional string argument (\<^verbatim>\<open>api_key\<close>, \<^verbatim>\<open>user_agent\<close>) is \<open>None\<close> or a string;
  \<^verbatim>\<open>if not api_key\<close> holds for \<^verbatim>\<open>None\<close> and for the empty string.
\<close>

fun truthy_str :: "string option \<Rightarrow> bool" where
  "truthy_str None = False"
| "truthy_str (Some s) = (s \<noteq> [])"

text \<open>
  \<^verbatim>\<open>__init__\<close>: the warnings it logs, the session it has the factory create, and the client
  it leaves.
\<close>

definition init :: "string option \<Rightarrow> string option \<Rightarrow> int \<Rightarrow> real \<Rightarrow> event list \<times> client" where
  "init api_key user_agent retries backoff =
     (let log1 = (if \<not> truthy_str api_key
                  then [LogWarning ''No API key provided, this may limit some actions you can do with urslcan.io'']
                  else []);
          user_agent' = (case user_agent of
                           None \<Rightarrow> ''BasicUrlscanPy/v1''
                         | Some ua \<Rightarrow> if ua = [] then ''BasicUrlscanPy/v1'' else ua);
          log2 = (if \<not> truthy_str user_agent
                  then [LogWarning (''No user agent provided, using default user agent: '' @ user_agent'
                          @ ''. It is recommended to set a custom user agent'')]
                  else []);
          headers0 = [(''Content-Type'', ''application/json''), (''User-Agent'', user_agent')];
          headers1 = (case api_key of
                        None \<Rightarrow> headers0
                      | Some k \<Rightarrow> if k = [] then headers0 else headers0 @ [(''API-Key'', k)]);
          session1 = urlscan_session retries backoff
      in (log1 @ log2 @ [SessionCreate session1], \<lparr>headers = headers1, session = session1\<rparr>))"

text \<open>
  \<open>execute\<close>: the events of the call, and the exception it raises (\<open>Inl\<close>) or the value it
  returns (\<open>Inr\<close>, where \<open>None\<close> is Python's \<^verbatim>\<open>None\<close>). The client is not assigned to, so it
  is only read. Around \<^verbatim>\<open>json.dumps\<close> only \<^verbatim>\<open>TypeError\<close> is caught; any other exception it
  raises leaves the call as it is.
\<close>

definition execute ::
  "interpreter \<Rightarrow> transport \<Rightarrow> client \<Rightarrow> string \<Rightarrow> string \<Rightarrow> py_value \<Rightarrow> py_value
     \<Rightarrow> event list \<times> (py_exception + response option)" where
  "execute interp net self method url payload params =
     (if truthy payload \<and> \<not> is_dict payload
      then ([], Inl (ValueError ''Payload must be a dictionary''))
      else
        (case (if truthy payload
               then (case json_dumps interp payload of
                       Inl (TypeError e) \<Rightarrow>
                         Inl (UrlscanInvalidPayload (''Failed to convert payload to JSON: '' @ e))
                     | Inl exc \<Rightarrow> Inl exc
                     | Inr text \<Rightarrow> Inr (PStr text))
               else Inr payload) of
           Inl exc \<Rightarrow> ([], Inl exc)
         | Inr payload' \<Rightarrow>
             if truthy params \<and> \<not> is_dict params
             then ([], Inl (ValueError ''Params must be a dictionary''))
             else
               (let urlscan_request = session self;
                    req = \<lparr>req_method = method, req_url = url, req_headers = headers self,
                           req_data = payload', req_params = params\<rparr>
                in case net urlscan_request req of
                     Inl (RequestException k e) \<Rightarrow>
                       ([SessionEnter urlscan_request,
                         SessionRequest urlscan_request req,
                         LogError (''Request of '' @ url @ '' failed with the following error: '' @ e),
                         SessionExit urlscan_request],
                        Inr None)
                   | Inl (NotRequestException e) \<Rightarrow>
                       ([SessionEnter urlscan_request,
                         SessionRequest urlscan_request req,
                         SessionExit urlscan_request],
                        Inl (OtherException e))
                   | Inr response \<Rightarrow>
                       ([SessionEnter urlscan_request,
                         SessionRequest urlscan_request req,
                         SessionExit urlscan_request],
                        Inr (Some response)))))"

definition get_quotas :: "interpreter \<Rightarrow> transport \<Rightarrow> client \<Rightarrow> event list \<times> (py_exception + response option)" where
  "get_quotas interp net self = execute interp net self ''GET'' QUOTA_URL PNone PNone"

definition get_result ::
  "interpreter \<Rightarrow> transport \<Rightarrow> client \<Rightarrow> string \<Rightarrow> event list \<times> (py_exception + response option)" where
  "get_result interp net self result_uuid =
     execute interp net self ''GET'' (API_URL @ ''/result/'' @ result_uuid) PNone PNone"

definition get_screenshot ::
  "interpreter \<Rightarrow> transport \<Rightarrow> client \<Rightarrow> string \<Rightarrow> event list \<times> (py_exception + response option)" where
  "get_screenshot interp net self result_uuid =
     execute interp net self ''GET'' (SCREENSHOT_URL @ ''/'' @ result_uuid) PNone PNone"

definition get_dom ::
  "interpreter \<Rightarrow> transport \<Rightarrow> client \<Rightarrow> string \<Rightarrow> event list \<times> (py_exception + response option)" where
  "get_dom interp net self result_uuid =
     execute interp net self ''GET'' (DOM_URL @ ''/'' @ result_uuid) PNone PNone"

definition get_response ::
  "interpreter \<Rightarrow> transport \<Rightarrow> client \<Rightarrow> string \<Rightarrow> event list \<times> (py_exception + response option)" where
  "get_response interp net self response_sha256 =
     execute interp net self ''GET'' (RESPONSE_URL @ ''/'' @ response_sha256) PNone PNone"

definition get_scan_countries ::
  "interpreter \<Rightarrow> transport \<Rightarrow> client \<Rightarrow> event list \<times> (py_exception + response option)" where
  "get_scan_countries interp net self =
     execute interp net self ''GET'' (API_URL @ ''/availableCountries/'') PNone PNone"

definition post_scan ::
  "interpreter \<Rightarrow> transport \<Rightarrow> client \<Rightarrow> py_value \<Rightarrow> event list \<times> (py_exception + response option)" where
  "post_scan interp net self payload =
     (case payload of
        PDict kvs \<Rightarrow>
          if \<not> dict_contains kvs (PStr ''url'')
          then ([], Inl (ValueError ''Payload must contain a URL to scan''))
          else
            (let visibility = dict_get kvs (PStr ''visibility'')
             in if truthy visibility \<and> visibility \<notin> set VISIBILITIES
                then ([], Inl (ValueError (''Visibility must be one of '' @ VISIBILITIES_repr)))
                else execute interp net self ''POST'' (API_URL @ ''/scan/'') payload PNone)
      | _ \<Rightarrow> ([], Inl (ValueError ''Payload must be a dictionary'')))"

definition get_search ::
  "interpreter \<Rightarrow> transport \<Rightarrow> client \<Rightarrow> py_value \<Rightarrow> event list \<times> (py_exception + response option)" where
  "get_search interp net self params =
     (case params of
        PDict kvs \<Rightarrow>
          if \<not> dict_contains kvs (PStr ''q'')
          then ([], Inl (ValueError ''Params must contain a query to search for''))
          else execute interp net self ''GET'' (API_URL @ ''/search/'') PNone params
      | _ \<Rightarrow> ([], Inl (ValueError ''Params must be a dictionary'')))"

section \<open>An interpreter, a client and three transports for the concrete checks\<close>

text \<open>The default digit limit, and room for a thousand nested containers.\<close>

definition example_interpreter :: interpreter where
  "example_interpreter = \<lparr>int_max_str_digits = 4300, recursion_budget = 1000\<rparr>"

definition example_client :: client where
  "example_client = snd (init (Some ''secret-key'') (Some ''BobSecurityScanner/v1'') 5 1)"

definition net_ok :: transport where
  "net_ok s r = Inr \<lparr>status_code = 200, resp_headers = [], content = ''{}''\<rparr>"

definition net_not_found :: transport where
  "net_not_found s r = Inr \<lparr>status_code = 404, resp_headers = [], content = ''Not Found''\<rparr>"

definition net_timeout :: transport where
  "net_timeout s r = Inl (RequestException Timeout ''Read timed out.'')"

text \<open>Which events are requests, and which are creations of a session.\<close>

fun is_request :: "event \<Rightarrow> bool" where
  "is_request (SessionRequest s r) = True"
| "is_request ev = False"

fun is_create :: "event \<Rightarrow> bool" where
  "is_create (SessionCreate s) = True"
| "is_create ev = False"

text \<open>Whether an outcome is a raised \<open>TypeError\<close>.\<close>

fun is_TypeError :: "py_exception + 'a \<Rightarrow> bool" where
  "is_TypeError (Inl (TypeError e)) = True"
| "is_TypeError r = False"

section \<open>When serialization fails, and how\<close>

lemma int_repr_within: "\<not> int_too_long interp i \<Longrightarrow> int_repr interp i = Inr (show_int i)"
  by (simp add: int_repr_def)

lemma int_repr_beyond: "int_too_long interp i \<Longrightarrow> \<exists>m. int_repr interp i = Inl (ValueError m)"
  by (simp add: int_repr_def)

lemma json_key_outcome:
  "key_within_limits interp k \<Longrightarrow>
     (if key_serializable k then \<not> isl (json_key interp k) else is_TypeError (json_key interp k))"
  by (cases k) (simp_all add: int_repr_within)

lemma is_TypeError_Inl: "is_TypeError (Inl e) = (\<exists>m. e = TypeError m)"
  by (cases e) simp_all

lemma is_TypeError_case:
  "is_TypeError (case x of Inl e \<Rightarrow> Inl e | Inr t \<Rightarrow> Inr (f t)) = is_TypeError x"
  by (cases x rule: is_TypeError.cases) simp_all

lemma isl_case:
  "isl (case x of Inl e \<Rightarrow> Inl e | Inr t \<Rightarrow> Inr (f t)) = isl x"
  by (cases x) simp_all

lemma is_TypeError_isl: "is_TypeError x \<Longrightarrow> isl x"
  by (cases x) simp_all

text \<open>
  Within the limits, the encoder fails exactly on the values that contain something of a
  type with no encoding, and then with a \<open>TypeError\<close>.
\<close>

lemma json_encode_outcome:
  "within_limits interp d v \<Longrightarrow>
     (if serializable v then \<not> isl (json_encode interp d v)
      else is_TypeError (json_encode interp d v))"
  "list_all (within_limits interp d) xs \<Longrightarrow>
     (if list_all serializable xs then \<not> isl (json_encode_list interp d xs)
      else is_TypeError (json_encode_list interp d xs))"
  "list_all (\<lambda>kv. key_within_limits interp (fst kv) \<and> within_limits interp d (snd kv)) kvs \<Longrightarrow>
     (if list_all (\<lambda>kv. key_serializable (fst kv) \<and> serializable (snd kv)) kvs
      then \<not> isl (json_encode_items interp d kvs)
      else is_TypeError (json_encode_items interp d kvs))"
proof (induction interp d v and interp d xs and interp d kvs
       rule: json_encode_json_encode_list_json_encode_items.induct)
  case (3 interp d i)
  then show ?case by (simp add: int_repr_within)
next
  case (5 interp d xs)
  from 5(2) have d: "d \<noteq> 0" and w: "list_all (within_limits interp (d - 1)) xs"
    by simp_all
  from 5(1) [OF d w] d show ?case
    by (simp add: is_TypeError_case isl_case del: One_nat_def)
next
  case (6 interp d kvs)
  from 6(2) have d: "d \<noteq> 0"
    and w: "list_all (\<lambda>kv. key_within_limits interp (fst kv)
                           \<and> within_limits interp (d - 1) (snd kv)) kvs"
    by simp_all
  from 6(1) [OF d w] d show ?case
    by (simp add: is_TypeError_case isl_case del: One_nat_def)
next
  case (9 interp d x xs)
  from 9(3) have wx: "within_limits interp d x" and wxs: "list_all (within_limits interp d) xs"
    by simp_all
  show ?case
  proof (cases "json_encode interp d x")
    case (Inl e)
    with 9(1) [OF wx] show ?thesis by (auto simp: is_TypeError_Inl split: if_splits)
  next
    case (Inr t)
    with 9(1) [OF wx] have sx: "serializable x" by (auto simp: is_TypeError_Inl split: if_splits)
    from 9(2) [OF Inr wxs] Inr sx show ?thesis
      by (cases "json_encode_list interp d xs") (auto simp: is_TypeError_Inl split: if_splits)
  qed
next
  case (11 interp d k v kvs)
  from 11(3) have wk: "key_within_limits interp k" and wv: "within_limits interp d v"
    and wkvs: "list_all (\<lambda>kv. key_within_limits interp (fst kv)
                              \<and> within_limits interp d (snd kv)) kvs"
    by simp_all
  show ?case
  proof (cases "json_key interp k")
    case (Inl e)
    with json_key_outcome [OF wk] show ?thesis by (auto simp: is_TypeError_Inl split: if_splits)
  next
    case key: (Inr ks)
    with json_key_outcome [OF wk] have sk: "key_serializable k" by (auto simp: is_TypeError_Inl split: if_splits)
    show ?thesis
    proof (cases "json_encode interp d v")
      case (Inl e)
      with 11(1) [OF key wv] key show ?thesis by (auto simp: is_TypeError_Inl split: if_splits)
    next
      case (Inr t)
      with 11(1) [OF key wv] have sv: "serializable v" by (auto simp: is_TypeError_Inl split: if_splits)
      from 11(2) [OF key Inr wkvs] key Inr sk sv show ?thesis
        by (cases "json_encode_items interp d kvs") (auto simp: is_TypeError_Inl split: if_splits)
    qed
  qed
qed simp_all

lemma json_dumps_TypeError:
  assumes "within_limits interp (recursion_budget interp) obj" and "\<not> serializable obj"
  shows "\<exists>e. json_dumps interp obj = Inl (TypeError e)"
proof -
  from json_encode_outcome(1) [OF assms(1)] assms(2)
  have "is_TypeError (json_dumps interp obj)" by (simp add: json_dumps_def)
  then show ?thesis
    by (cases "json_dumps interp obj" rule: is_TypeError.cases) simp_all
qed

lemma json_dumps_text:
  assumes "within_limits interp (recursion_budget interp) obj" and "serializable obj"
  shows "\<exists>text. json_dumps interp obj = Inr text"
proof -
  from json_encode_outcome(1) [OF assms(1)] assms(2)
  have "\<not> isl (json_dumps interp obj)" by (simp add: json_dumps_def)
  then show ?thesis by (cases "json_dumps interp obj") simp_all
qed

section \<open>The constants and the examples, evaluated\<close>

lemma API_URL_value: "API_URL = ''https://urlscan.io/api/v1''"
  by (simp add: API_URL_def URLSCAN_DOMAIN_def)

lemma QUOTA_URL_value: "QUOTA_URL = ''https://urlscan.io/user/quotas/''"
  by (simp add: QUOTA_URL_def URLSCAN_DOMAIN_def)

lemma example_client_value:
  "example_client =
     \<lparr>headers = [(''Content-Type'', ''application/json''),
                 (''User-Agent'', ''BobSecurityScanner/v1''),
                 (''API-Key'', ''secret-key'')],
      session = urlscan_session 5 1\<rparr>"
  by (simp add: example_client_def init_def Let_def)

lemma example_int_too_long: "int_too_long example_interpreter (10 ^ 4300)"
  unfolding int_too_long_def example_interpreter_def
  by (simp del: power_numeral)

section \<open>Transport failures\<close>

text \<open>
  C1. Whenever a call to \<open>execute\<close> issues its request and the transport raises an
  exception of the \<^verbatim>\<open>RequestException\<close> family (a timeout, a connection error, exhausted
  retries), the call returns \<^verbatim>\<open>None\<close> instead of raising, and it has logged an error that
  names the URL and carries the text of the underlying exception.
\<close>

theorem execute_transport_failure:
  assumes "SessionRequest s r \<in> set (fst (execute interp net self method url payload params))"
    and "net s r = Inl (RequestException k e)"
  shows "snd (execute interp net self method url payload params) = Inr None
       \<and> LogError (''Request of '' @ url @ '' failed with the following error: '' @ e)
           \<in> set (fst (execute interp net self method url payload params))"
  using assms
  by (auto simp: execute_def Let_def split: if_splits sum.splits transport_exception.splits py_exception.splits)

theorem execute_transport_failure_witness:
  "SessionRequest (session example_client)
      \<lparr>req_method = ''GET'', req_url = QUOTA_URL, req_headers = headers example_client,
       req_data = PNone, req_params = PNone\<rparr>
     \<in> set (fst (execute example_interpreter net_timeout example_client ''GET'' QUOTA_URL PNone PNone))
   \<and> net_timeout (session example_client)
        \<lparr>req_method = ''GET'', req_url = QUOTA_URL, req_headers = headers example_client,
         req_data = PNone, req_params = PNone\<rparr>
       = Inl (RequestException Timeout ''Read timed out.'')
   \<and> snd (execute example_interpreter net_timeout example_client ''GET'' QUOTA_URL PNone PNone) = Inr None
   \<and> LogError ''Request of https://urlscan.io/user/quotas/ failed with the following error: Read timed out.''
       \<in> set (fst (execute example_interpreter net_timeout example_client ''GET'' QUOTA_URL PNone PNone))"
proof -
  let ?r = "\<lparr>req_method = ''GET'', req_url = QUOTA_URL, req_headers = headers example_client,
             req_data = PNone, req_params = PNone\<rparr>"
  have h1: "SessionRequest (session example_client) ?r
              \<in> set (fst (execute example_interpreter net_timeout example_client ''GET'' QUOTA_URL PNone PNone))"
    by (simp add: execute_def net_timeout_def Let_def)
  have h2: "net_timeout (session example_client) ?r
              = Inl (RequestException Timeout ''Read timed out.'')"
    by (simp add: net_timeout_def)
  from execute_transport_failure [OF h1 h2] h1 h2 show ?thesis
    by (simp add: QUOTA_URL_value)
qed

section \<open>Payloads that cannot be serialized\<close>

lemma example_interpreter_digits: "int_max_str_digits example_interpreter = 4300"
  by (simp add: example_interpreter_def)

lemma example_interpreter_budget: "recursion_budget example_interpreter = 1000"
  by (simp add: example_interpreter_def)

lemma execute_TypeError:
  assumes "is_dict payload" and "truthy payload"
    and "json_dumps interp payload = Inl (TypeError e)"
  shows "execute interp net self method url payload params =
           ([], Inl (UrlscanInvalidPayload (''Failed to convert payload to JSON: '' @ e)))"
  using assms by (simp add: execute_def)

lemma execute_not_TypeError:
  assumes "is_dict payload" and "truthy payload"
    and "json_dumps interp payload = Inl exc" and "\<forall>e. exc \<noteq> TypeError e"
  shows "execute interp net self method url payload params = ([], Inl exc)"
  using assms by (cases exc) (simp_all add: execute_def)

text \<open>
  C4, as the specification states it, fails: a dictionary that holds an integer of 4301
  digits, followed by a set, contains values that cannot be serialized, and \<open>execute\<close>
  raises the \<open>ValueError\<close> of \<^verbatim>\<open>json.dumps\<close>, not \<open>UrlscanInvalidPayload\<close>: only
  \<^verbatim>\<open>TypeError\<close> is caught.
\<close>

theorem execute_overlong_int_payload_counterexample:
  "is_dict (PDict [(PStr ''n'', PInt (10 ^ 4300)), (PStr ''s'', PObject ''set'' True)])
   \<and> \<not> serializable (PDict [(PStr ''n'', PInt (10 ^ 4300)), (PStr ''s'', PObject ''set'' True)])
   \<and> isl (json_dumps example_interpreter
             (PDict [(PStr ''n'', PInt (10 ^ 4300)), (PStr ''s'', PObject ''set'' True)]))
   \<and> execute example_interpreter net_ok example_client ''POST'' (API_URL @ ''/scan/'')
        (PDict [(PStr ''n'', PInt (10 ^ 4300)), (PStr ''s'', PObject ''set'' True)]) PNone
       = ([], Inl (ValueError (''Exceeds the limit ('' @ show_nat 4300
             @ '' digits) for integer string conversion; use sys.set_int_max_str_digits() to increase the limit'')))"
  by (simp add: execute_def json_dumps_def int_repr_def example_int_too_long
      example_interpreter_digits example_interpreter_budget del: power_numeral)

text \<open>
  C4, amended. For every non-empty dictionary payload, \<open>execute\<close> turns a
  \<^verbatim>\<open>TypeError\<close> of \<^verbatim>\<open>json.dumps\<close> into \<open>UrlscanInvalidPayload\<close>, carrying the message of
  the \<^verbatim>\<open>TypeError\<close>, and no event has happened. That is the outcome whenever the payload
  contains a value of a type with no JSON encoding and stays within the interpreter's
  limits (no integer beyond the digit limit, nesting within the recursion budget). Any
  other exception of \<^verbatim>\<open>json.dumps\<close> (the \<open>ValueError\<close> for an integer beyond the digit
  limit, the \<open>RecursionError\<close> for nesting that is too deep) is not caught: it leaves
  \<open>execute\<close> as it is, again with no event.
\<close>

theorem execute_serialization_failure:
  assumes "is_dict payload" and "truthy payload"
  shows "(\<not> serializable payload \<and> within_limits interp (recursion_budget interp) payload \<longrightarrow>
            (\<exists>e. json_dumps interp payload = Inl (TypeError e)
               \<and> execute interp net self method url payload params =
                   ([], Inl (UrlscanInvalidPayload (''Failed to convert payload to JSON: '' @ e)))))
       \<and> (\<forall>e. json_dumps interp payload = Inl (TypeError e) \<longrightarrow>
              execute interp net self method url payload params =
                ([], Inl (UrlscanInvalidPayload (''Failed to convert payload to JSON: '' @ e))))
       \<and> (\<forall>exc. json_dumps interp payload = Inl exc \<and> (\<forall>e. exc \<noteq> TypeError e) \<longrightarrow>
              execute interp net self method url payload params = ([], Inl exc))"
proof -
  have a: "\<not> serializable payload \<and> within_limits interp (recursion_budget interp) payload \<longrightarrow>
            (\<exists>e. json_dumps interp payload = Inl (TypeError e)
               \<and> execute interp net self method url payload params =
                   ([], Inl (UrlscanInvalidPayload (''Failed to convert payload to JSON: '' @ e))))"
  proof
    assume h: "\<not> serializable payload \<and> within_limits interp (recursion_budget interp) payload"
    then obtain e where e: "json_dumps interp payload = Inl (TypeError e)"
      using json_dumps_TypeError by blast
    from execute_TypeError [OF assms e] e
    show "\<exists>e. json_dumps interp payload = Inl (TypeError e)
               \<and> execute interp net self method url payload params =
                   ([], Inl (UrlscanInvalidPayload (''Failed to convert payload to JSON: '' @ e)))"
      by blast
  qed
  have b: "\<forall>e. json_dumps interp payload = Inl (TypeError e) \<longrightarrow>
              execute interp net self method url payload params =
                ([], Inl (UrlscanInvalidPayload (''Failed to convert payload to JSON: '' @ e)))"
    using execute_TypeError [OF assms] by blast
  have c: "\<forall>exc. json_dumps interp payload = Inl exc \<and> (\<forall>e. exc \<noteq> TypeError e) \<longrightarrow>
              execute interp net self method url payload params = ([], Inl exc)"
    using execute_not_TypeError [OF assms] by blast
  from a b c show ?thesis by blast
qed

theorem execute_serialization_failure_witness:
  "is_dict (PDict [(PStr ''url'', PStr ''http://example.com''), (PStr ''tags'', PObject ''set'' True)])
   \<and> truthy (PDict [(PStr ''url'', PStr ''http://example.com''), (PStr ''tags'', PObject ''set'' True)])
   \<and> \<not> serializable
         (PDict [(PStr ''url'', PStr ''http://example.com''), (PStr ''tags'', PObject ''set'' True)])
   \<and> within_limits example_interpreter (recursion_budget example_interpreter)
         (PDict [(PStr ''url'', PStr ''http://example.com''), (PStr ''tags'', PObject ''set'' True)])
   \<and> execute example_interpreter net_ok example_client ''POST'' (API_URL @ ''/scan/'')
        (PDict [(PStr ''url'', PStr ''http://example.com''), (PStr ''tags'', PObject ''set'' True)]) PNone
       = ([], Inl (UrlscanInvalidPayload
                    ''Failed to convert payload to JSON: Object of type set is not JSON serializable''))
   \<and> is_dict (PDict [(PStr ''n'', PList [PList []])])
   \<and> truthy (PDict [(PStr ''n'', PList [PList []])])
   \<and> json_dumps \<lparr>int_max_str_digits = 4300, recursion_budget = 2\<rparr> (PDict [(PStr ''n'', PList [PList []])])
       = Inl (RecursionError ''maximum recursion depth exceeded while encoding a JSON object'')
   \<and> execute \<lparr>int_max_str_digits = 4300, recursion_budget = 2\<rparr> net_ok example_client ''POST''
        (API_URL @ ''/scan/'') (PDict [(PStr ''n'', PList [PList []])]) PNone
       = ([], Inl (RecursionError ''maximum recursion depth exceeded while encoding a JSON object''))"
proof -
  let ?p = "PDict [(PStr ''url'', PStr ''http://example.com''), (PStr ''tags'', PObject ''set'' True)]"
  let ?q = "PDict [(PStr ''n'', PList [PList []])]"
  let ?i = "\<lparr>int_max_str_digits = 4300, recursion_budget = 2\<rparr>"
  have p1: "is_dict ?p" and p2: "truthy ?p" by simp_all
  have p3: "\<not> serializable ?p" by simp
  have p4: "within_limits example_interpreter (recursion_budget example_interpreter) ?p"
    by (simp add: example_interpreter_budget)
  have pd: "json_dumps example_interpreter ?p
              = Inl (TypeError ''Object of type set is not JSON serializable'')"
    by (simp add: json_dumps_def example_interpreter_budget)
  have q1: "is_dict ?q" and q2: "truthy ?q" by simp_all
  have qd: "json_dumps ?i ?q
              = Inl (RecursionError ''maximum recursion depth exceeded while encoding a JSON object'')"
    by (simp add: json_dumps_def)
  from execute_serialization_failure
         [OF p1 p2, of example_interpreter net_ok example_client "''POST''" "API_URL @ ''/scan/''" PNone]
       execute_serialization_failure
         [OF q1 q2, of ?i net_ok example_client "''POST''" "API_URL @ ''/scan/''" PNone]
       p1 p2 p3 p4 pd q1 q2 qd
  show ?thesis by auto
qed

section \<open>Validation in \<open>post_scan\<close>\<close>

lemma dict_contains_nonempty: "dict_contains kvs k \<Longrightarrow> kvs \<noteq> []"
  by (auto simp: dict_contains_def)

lemma execute_dict_request:
  assumes "kvs \<noteq> []" and "json_dumps interp (PDict kvs) = Inr text"
  shows "SessionRequest (session self)
           \<lparr>req_method = method, req_url = url, req_headers = headers self,
            req_data = PStr text, req_params = PNone\<rparr>
         \<in> set (fst (execute interp net self method url (PDict kvs) PNone))"
  using assms
  by (auto simp: execute_def Let_def split: sum.splits transport_exception.splits)

text \<open>
  C2, as the specification states it, fails: a payload with a \<^verbatim>\<open>url\<close> and the visibility
  \<^verbatim>\<open>''\<close> (the empty string, which is outside the set) is not rejected; the request is
  issued and the response returned.
\<close>

theorem post_scan_empty_visibility_counterexample:
  "dict_contains [(PStr ''url'', PStr ''http://example.com''), (PStr ''visibility'', PStr [])]
     (PStr ''visibility'')
   \<and> dict_get [(PStr ''url'', PStr ''http://example.com''), (PStr ''visibility'', PStr [])]
       (PStr ''visibility'') = PStr []
   \<and> PStr [] \<notin> set VISIBILITIES
   \<and> snd (post_scan example_interpreter net_ok example_client
            (PDict [(PStr ''url'', PStr ''http://example.com''), (PStr ''visibility'', PStr [])]))
       = Inr (Some \<lparr>status_code = 200, resp_headers = [], content = ''{}''\<rparr>)
   \<and> length (filter is_request (fst (post_scan example_interpreter net_ok example_client
            (PDict [(PStr ''url'', PStr ''http://example.com''), (PStr ''visibility'', PStr [])]))))
       = 1"
  by (simp add: post_scan_def dict_contains_def dict_get_def VISIBILITIES_def execute_def
      json_dumps_def example_interpreter_budget net_ok_def Let_def)

text \<open>
  C2, amended. For a dictionary payload with a \<^verbatim>\<open>url\<close> key and a \<^verbatim>\<open>visibility\<close> key of
  value \<open>v\<close>: when \<open>v\<close> is truthy and outside the set of visibilities, \<open>post_scan\<close> raises
  the \<open>ValueError\<close> about visibilities and nothing has happened; when \<open>v\<close> is in the set, or
  is falsy (\<^verbatim>\<open>None\<close>, \<^verbatim>\<open>''\<close>, \<^verbatim>\<open>0\<close>, \<^verbatim>\<open>False\<close>, an empty container), validation passes: the
  call is exactly the call of \<open>execute\<close> with \<^verbatim>\<open>POST\<close>, the scan URL and the payload, and
  whenever the payload serializes, the request is issued with the serialized text as its
  data.
\<close>

theorem post_scan_visibility:
  assumes "dict_contains kvs (PStr ''url'')"
    and "map_of kvs (PStr ''visibility'') = Some v"
  shows "(truthy v \<and> v \<notin> set VISIBILITIES \<longrightarrow>
            post_scan interp net self (PDict kvs) =
              ([], Inl (ValueError (''Visibility must be one of '' @ VISIBILITIES_repr))))
       \<and> (v \<in> set VISIBILITIES \<or> \<not> truthy v \<longrightarrow>
            post_scan interp net self (PDict kvs) =
              execute interp net self ''POST'' (API_URL @ ''/scan/'') (PDict kvs) PNone
            \<and> (\<forall>text. json_dumps interp (PDict kvs) = Inr text \<longrightarrow>
                  SessionRequest (session self)
                    \<lparr>req_method = ''POST'', req_url = API_URL @ ''/scan/'',
                     req_headers = headers self, req_data = PStr text, req_params = PNone\<rparr>
                  \<in> set (fst (post_scan interp net self (PDict kvs)))))"
proof -
  have ne: "kvs \<noteq> []" using assms(1) by (rule dict_contains_nonempty)
  have v: "dict_get kvs (PStr ''visibility'') = v" using assms(2) by (simp add: dict_get_def)
  have inside: "v \<in> set VISIBILITIES \<Longrightarrow> truthy v" by (auto simp: VISIBILITIES_def)
  have rejected: "truthy v \<and> v \<notin> set VISIBILITIES \<longrightarrow>
            post_scan interp net self (PDict kvs) =
              ([], Inl (ValueError (''Visibility must be one of '' @ VISIBILITIES_repr)))"
    using assms(1) v by (simp add: post_scan_def Let_def)
  have passed: "v \<in> set VISIBILITIES \<or> \<not> truthy v \<Longrightarrow>
            post_scan interp net self (PDict kvs) =
              execute interp net self ''POST'' (API_URL @ ''/scan/'') (PDict kvs) PNone"
    using assms(1) v inside by (auto simp: post_scan_def Let_def)
  show ?thesis
    using rejected passed execute_dict_request [OF ne, of interp _ self "''POST''" "API_URL @ ''/scan/''" net]
    by auto
qed

theorem post_scan_visibility_witness:
  "dict_contains [(PStr ''url'', PStr ''http://example.com''), (PStr ''visibility'', PStr ''secret'')]
     (PStr ''url'')
   \<and> map_of [(PStr ''url'', PStr ''http://example.com''), (PStr ''visibility'', PStr ''secret'')]
       (PStr ''visibility'') = Some (PStr ''secret'')
   \<and> truthy (PStr ''secret'') \<and> PStr ''secret'' \<notin> set VISIBILITIES
   \<and> post_scan example_interpreter net_ok example_client
        (PDict [(PStr ''url'', PStr ''http://example.com''), (PStr ''visibility'', PStr ''secret'')])
       = ([], Inl (ValueError (''Visibility must be one of '' @ VISIBILITIES_repr)))
   \<and> dict_contains [(PStr ''url'', PStr ''u''), (PStr ''visibility'', PStr ''private'')]
       (PStr ''url'')
   \<and> map_of [(PStr ''url'', PStr ''u''), (PStr ''visibility'', PStr ''private'')]
       (PStr ''visibility'') = Some (PStr ''private'')
   \<and> PStr ''private'' \<in> set VISIBILITIES
   \<and> post_scan example_interpreter net_ok example_client
        (PDict [(PStr ''url'', PStr ''u''), (PStr ''visibility'', PStr ''private'')])
       = execute example_interpreter net_ok example_client ''POST'' (API_URL @ ''/scan/'')
           (PDict [(PStr ''url'', PStr ''u''), (PStr ''visibility'', PStr ''private'')])
           PNone
   \<and> json_dumps example_interpreter
        (PDict [(PStr ''url'', PStr ''u''), (PStr ''visibility'', PStr ''private'')])
       = Inr (''{'' @ json_string ''url'' @ '': '' @ json_string ''u'' @ '', ''
              @ json_string ''visibility'' @ '': '' @ json_string ''private'' @ ''}'')
   \<and> SessionRequest (session example_client)
        \<lparr>req_method = ''POST'', req_url = API_URL @ ''/scan/'',
         req_headers = headers example_client,
         req_data = PStr (''{'' @ json_string ''url'' @ '': '' @ json_string ''u'' @ '', ''
              @ json_string ''visibility'' @ '': '' @ json_string ''private'' @ ''}''),
         req_params = PNone\<rparr>
       \<in> set (fst (post_scan example_interpreter net_ok example_client
                     (PDict [(PStr ''url'', PStr ''u''), (PStr ''visibility'', PStr ''private'')])))"
proof -
  let ?a = "[(PStr ''url'', PStr ''http://example.com''), (PStr ''visibility'', PStr ''secret'')]"
  let ?b = "[(PStr ''url'', PStr ''u''), (PStr ''visibility'', PStr ''private'')]"
  have a1: "dict_contains ?a (PStr ''url'')" by (simp add: dict_contains_def)
  have a2: "map_of ?a (PStr ''visibility'') = Some (PStr ''secret'')" by simp
  have a3: "truthy (PStr ''secret'') \<and> PStr ''secret'' \<notin> set VISIBILITIES"
    by (simp add: VISIBILITIES_def)
  have b1: "dict_contains ?b (PStr ''url'')" by (simp add: dict_contains_def)
  have b2: "map_of ?b (PStr ''visibility'') = Some (PStr ''private'')" by simp
  have b3: "PStr ''private'' \<in> set VISIBILITIES" by (simp add: VISIBILITIES_def)
  have b4: "json_dumps example_interpreter (PDict ?b)
       = Inr (''{'' @ json_string ''url'' @ '': '' @ json_string ''u'' @ '', ''
              @ json_string ''visibility'' @ '': '' @ json_string ''private'' @ ''}'')"
    by (simp add: json_dumps_def example_interpreter_budget)
  from post_scan_visibility [OF a1 a2, of example_interpreter net_ok example_client]
       post_scan_visibility [OF b1 b2, of example_interpreter net_ok example_client]
       a1 a2 a3 b1 b2 b3 b4
  show ?thesis by blast
qed

section \<open>Payloads that are not dictionaries\<close>

text \<open>
  C3, as the specification states it, fails for \<open>execute\<close>: the empty list is a payload
  that is present and is not a dictionary, yet \<open>execute\<close> raises nothing, issues the
  request with the empty list as its data and returns the response.
\<close>

theorem execute_empty_list_payload_counterexample:
  "PList [] \<noteq> PNone \<and> \<not> is_dict (PList [])
   \<and> snd (execute example_interpreter net_ok example_client ''GET'' QUOTA_URL (PList []) PNone)
       = Inr (Some \<lparr>status_code = 200, resp_headers = [], content = ''{}''\<rparr>)
   \<and> SessionRequest (session example_client)
        \<lparr>req_method = ''GET'', req_url = QUOTA_URL, req_headers = headers example_client,
         req_data = PList [], req_params = PNone\<rparr>
       \<in> set (fst (execute example_interpreter net_ok example_client ''GET'' QUOTA_URL (PList []) PNone))"
  by (simp add: execute_def net_ok_def Let_def)

text \<open>
  C3, amended. For every payload that is not a dictionary, \<open>post_scan\<close> raises the
  \<open>ValueError\<close> about the payload and nothing has happened. \<open>execute\<close> does the same when
  the payload is, in addition, truthy. A payload that is not a dictionary and is falsy
  (\<^verbatim>\<open>None\<close>, \<^verbatim>\<open>False\<close>, \<^verbatim>\<open>0\<close>, \<^verbatim>\<open>''\<close>, \<^verbatim>\<open>[]\<close>) is treated by \<open>execute\<close> as absent: that
  error is not raised and, when \<open>params\<close> passes its own check, the request is issued with
  the payload, as it is, as its data.
\<close>

theorem non_dict_payload_validation:
  assumes "\<not> is_dict payload"
  shows "post_scan interp net self payload = ([], Inl (ValueError ''Payload must be a dictionary''))
       \<and> (truthy payload \<longrightarrow>
            execute interp net self method url payload params =
              ([], Inl (ValueError ''Payload must be a dictionary'')))
       \<and> (\<not> truthy payload \<longrightarrow>
            snd (execute interp net self method url payload params)
              \<noteq> Inl (ValueError ''Payload must be a dictionary'')
            \<and> (\<not> (truthy params \<and> \<not> is_dict params) \<longrightarrow>
                 SessionRequest (session self)
                   \<lparr>req_method = method, req_url = url, req_headers = headers self,
                    req_data = payload, req_params = params\<rparr>
                 \<in> set (fst (execute interp net self method url payload params))))"
proof -
  have p: "post_scan interp net self payload = ([], Inl (ValueError ''Payload must be a dictionary''))"
    using assms by (cases payload) (simp_all add: post_scan_def)
  have t: "truthy payload \<Longrightarrow>
             execute interp net self method url payload params =
               ([], Inl (ValueError ''Payload must be a dictionary''))"
    using assms by (simp add: execute_def)
  have f: "\<not> truthy payload \<Longrightarrow>
             snd (execute interp net self method url payload params)
               \<noteq> Inl (ValueError ''Payload must be a dictionary'')"
    by (auto simp: execute_def Let_def split: sum.splits transport_exception.splits py_exception.splits)
  have r: "\<not> truthy payload \<Longrightarrow> \<not> (truthy params \<and> \<not> is_dict params) \<Longrightarrow>
             SessionRequest (session self)
               \<lparr>req_method = method, req_url = url, req_headers = headers self,
                req_data = payload, req_params = params\<rparr>
             \<in> set (fst (execute interp net self method url payload params))"
    by (auto simp: execute_def Let_def split: sum.splits transport_exception.splits py_exception.splits)
  from p t f r show ?thesis by blast
qed

theorem non_dict_payload_validation_witness:
  "\<not> is_dict (PStr ''http://example.com'') \<and> truthy (PStr ''http://example.com'')
   \<and> post_scan example_interpreter net_ok example_client (PStr ''http://example.com'')
       = ([], Inl (ValueError ''Payload must be a dictionary''))
   \<and> execute example_interpreter net_ok example_client ''POST'' (API_URL @ ''/scan/'') (PStr ''http://example.com'') PNone
       = ([], Inl (ValueError ''Payload must be a dictionary''))
   \<and> \<not> is_dict (PInt 0) \<and> \<not> truthy (PInt 0)
   \<and> post_scan example_interpreter net_ok example_client (PInt 0)
       = ([], Inl (ValueError ''Payload must be a dictionary''))
   \<and> SessionRequest (session example_client)
        \<lparr>req_method = ''POST'', req_url = API_URL @ ''/scan/'', req_headers = headers example_client,
         req_data = PInt 0, req_params = PNone\<rparr>
       \<in> set (fst (execute example_interpreter net_ok example_client ''POST'' (API_URL @ ''/scan/'') (PInt 0) PNone))"
proof -
  have a: "\<not> is_dict (PStr ''http://example.com'')" by simp
  have b: "\<not> is_dict (PInt 0)" by simp
  from non_dict_payload_validation [OF a, of example_interpreter net_ok example_client "''POST''" "API_URL @ ''/scan/''" PNone]
       non_dict_payload_validation [OF b, of example_interpreter net_ok example_client "''POST''" "API_URL @ ''/scan/''" PNone]
  show ?thesis by simp
qed

section \<open>The session: one object, entered and left by every call\<close>

lemma int_repr_exceptions: "int_repr interp i = Inl exc \<Longrightarrow> \<exists>m. exc = ValueError m"
  by (auto simp: int_repr_def split: if_splits)

lemma json_key_exceptions:
  "json_key interp k = Inl exc \<Longrightarrow> \<exists>m. exc = TypeError m \<or> exc = ValueError m"
  by (cases k) (auto dest: int_repr_exceptions)

text \<open>The encoder raises nothing but \<open>TypeError\<close>, \<open>ValueError\<close> and \<open>RecursionError\<close>.\<close>

lemma json_encode_exceptions:
  "json_encode interp d v = Inl exc \<Longrightarrow>
     \<exists>m. exc = TypeError m \<or> exc = ValueError m \<or> exc = RecursionError m"
  "json_encode_list interp d xs = Inl exc \<Longrightarrow>
     \<exists>m. exc = TypeError m \<or> exc = ValueError m \<or> exc = RecursionError m"
  "json_encode_items interp d kvs = Inl exc \<Longrightarrow>
     \<exists>m. exc = TypeError m \<or> exc = ValueError m \<or> exc = RecursionError m"
proof (induction interp d v and interp d xs and interp d kvs
       rule: json_encode_json_encode_list_json_encode_items.induct)
  case (3 interp d i)
  then show ?case by (auto dest: int_repr_exceptions)
next
  case (5 interp d xs)
  then show ?case by (auto split: if_splits sum.splits)
next
  case (6 interp d kvs)
  then show ?case by (auto split: if_splits sum.splits)
next
  case (9 interp d x xs)
  then show ?case by (auto split: sum.splits)
next
  case (11 interp d k v kvs)
  show ?case
  proof (cases "json_key interp k")
    case (Inl e)
    with 11(3) json_key_exceptions [of interp k e] show ?thesis by auto
  next
    case key: (Inr ks)
    show ?thesis
    proof (cases "json_encode interp d v")
      case (Inl e)
      with 11(1) [OF key] 11(3) key show ?thesis by simp
    next
      case (Inr t)
      with 11(2) [OF key Inr] 11(3) key show ?thesis by (auto split: sum.splits)
    qed
  qed
qed auto

lemma json_dumps_exceptions:
  "json_dumps interp obj = Inl exc \<Longrightarrow>
     \<exists>m. exc = TypeError m \<or> exc = ValueError m \<or> exc = RecursionError m"
  unfolding json_dumps_def by (rule json_encode_exceptions(1))

lemma execute_events_shape:
  "fst (execute interp net self method url payload params) = []
   \<or> (\<exists>r. fst (execute interp net self method url payload params) =
          [SessionEnter (session self), SessionRequest (session self) r,
           SessionExit (session self)])
   \<or> (\<exists>r m. fst (execute interp net self method url payload params) =
          [SessionEnter (session self), SessionRequest (session self) r, LogError m,
           SessionExit (session self)])"
  by (auto simp: execute_def Let_def
      split: sum.splits transport_exception.splits py_exception.splits)

text \<open>
  Exactly the calls that raise a \<open>ValueError\<close>, an \<open>UrlscanInvalidPayload\<close> or a
  \<open>RecursionError\<close>, that is, the calls that fail validation or serialization, have no
  event.
\<close>

lemma execute_no_events_iff:
  "(fst (execute interp net self method url payload params) = []) =
     (\<exists>m. snd (execute interp net self method url payload params) = Inl (ValueError m)
        \<or> snd (execute interp net self method url payload params) = Inl (UrlscanInvalidPayload m)
        \<or> snd (execute interp net self method url payload params) = Inl (RecursionError m))"
proof (cases "truthy payload \<and> is_dict payload")
  case False
  then show ?thesis
    by (auto simp: execute_def Let_def split: sum.splits transport_exception.splits)
next
  case True
  show ?thesis
  proof (cases "json_dumps interp payload")
    case (Inl exc)
    from json_dumps_exceptions [OF Inl] True Inl show ?thesis
      by (auto simp: execute_def)
  next
    case (Inr t)
    with True show ?thesis
      by (auto simp: execute_def Let_def split: sum.splits transport_exception.splits)
  qed
qed

text \<open>
  C5, as the specification states it, fails: \<open>execute\<close> runs its request inside
  \<^verbatim>\<open>with self.session\<close>, so the call leaves the block through the session's exit, which
  for a requests session closes it. A plain GET on a transport that answers 200 ends with
  that release.
\<close>

theorem execute_releases_session_counterexample:
  "SessionExit (session example_client)
     \<in> set (fst (execute example_interpreter net_ok example_client ''GET'' QUOTA_URL PNone PNone))"
  by (simp add: execute_def net_ok_def Let_def)

text \<open>
  C5, amended. The constructor creates one session, the one the client then holds, and
  \<open>execute\<close> creates none: every call works on the held session. A call to \<open>execute\<close>
  that fails validation or serialization does not touch the session: it has no event at
  all, and these are the only calls without events. Every other call enters the held
  session, issues exactly one request over it and releases it exactly once, as the last
  thing it does, whether the request returned or raised: the release is per call.
\<close>

theorem execute_session_scope:
  "filter is_create (fst (init api_key user_agent retries backoff))
     = [SessionCreate (session (snd (init api_key user_agent retries backoff)))]
   \<and> (\<forall>s. SessionCreate s \<notin> set (fst (execute interp net self method url payload params)))
   \<and> ((fst (execute interp net self method url payload params) = []) =
        (\<exists>m. snd (execute interp net self method url payload params) = Inl (ValueError m)
           \<or> snd (execute interp net self method url payload params)
               = Inl (UrlscanInvalidPayload m)
           \<or> snd (execute interp net self method url payload params) = Inl (RecursionError m)))
   \<and> (fst (execute interp net self method url payload params) \<noteq> [] \<longrightarrow>
        hd (fst (execute interp net self method url payload params)) = SessionEnter (session self)
        \<and> last (fst (execute interp net self method url payload params))
            = SessionExit (session self)
        \<and> count_list (fst (execute interp net self method url payload params))
             (SessionExit (session self)) = 1
        \<and> (\<exists>r. filter is_request (fst (execute interp net self method url payload params))
                  = [SessionRequest (session self) r])
        \<and> (\<forall>s. SessionEnter s \<in> set (fst (execute interp net self method url payload params))
                 \<or> SessionExit s \<in> set (fst (execute interp net self method url payload params))
                 \<or> (\<exists>r. SessionRequest s r
                           \<in> set (fst (execute interp net self method url payload params)))
               \<longrightarrow> s = session self))"
proof -
  have a: "filter is_create (fst (init api_key user_agent retries backoff))
     = [SessionCreate (session (snd (init api_key user_agent retries backoff)))]"
    by (cases api_key; cases user_agent) (simp_all add: init_def Let_def)
  have b: "\<forall>s. SessionCreate s \<notin> set (fst (execute interp net self method url payload params))"
    using execute_events_shape [of interp net self "method" "url" payload params]
    by (elim disjE exE) simp_all
  have c: "fst (execute interp net self method url payload params) \<noteq> [] \<longrightarrow>
        hd (fst (execute interp net self method url payload params)) = SessionEnter (session self)
        \<and> last (fst (execute interp net self method url payload params))
            = SessionExit (session self)
        \<and> count_list (fst (execute interp net self method url payload params))
             (SessionExit (session self)) = 1
        \<and> (\<exists>r. filter is_request (fst (execute interp net self method url payload params))
                  = [SessionRequest (session self) r])
        \<and> (\<forall>s. SessionEnter s \<in> set (fst (execute interp net self method url payload params))
                 \<or> SessionExit s \<in> set (fst (execute interp net self method url payload params))
                 \<or> (\<exists>r. SessionRequest s r
                           \<in> set (fst (execute interp net self method url payload params)))
               \<longrightarrow> s = session self)"
    using execute_events_shape [of interp net self "method" "url" payload params]
    by (elim disjE exE) simp_all
  from a b c execute_no_events_iff [of interp net self "method" "url" payload params]
  show ?thesis by blast
qed

theorem execute_session_scope_witness:
  "filter is_create (fst (init (Some ''secret-key'') None 3 2)) = [SessionCreate (urlscan_session 3 2)]
   \<and> fst (execute example_interpreter net_timeout example_client ''GET'' QUOTA_URL PNone PNone) \<noteq> []
   \<and> hd (fst (execute example_interpreter net_timeout example_client ''GET'' QUOTA_URL PNone PNone))
       = SessionEnter (session example_client)
   \<and> last (fst (execute example_interpreter net_timeout example_client ''GET'' QUOTA_URL PNone PNone))
       = SessionExit (session example_client)
   \<and> count_list (fst (execute example_interpreter net_timeout example_client ''GET'' QUOTA_URL PNone PNone))
       (SessionExit (session example_client)) = 1
   \<and> snd (execute example_interpreter net_ok example_client ''GET'' QUOTA_URL (PInt 7) PNone)
       = Inl (ValueError ''Payload must be a dictionary'')
   \<and> fst (execute example_interpreter net_ok example_client ''GET'' QUOTA_URL (PInt 7) PNone) = []"
proof -
  have h: "fst (execute example_interpreter net_timeout example_client ''GET'' QUOTA_URL PNone PNone)
             \<noteq> []"
    by (simp add: execute_def net_timeout_def Let_def)
  have e: "snd (execute example_interpreter net_ok example_client ''GET'' QUOTA_URL (PInt 7) PNone)
             = Inl (ValueError ''Payload must be a dictionary'')"
    by (simp add: execute_def)
  have i: "session (snd (init (Some ''secret-key'') None 3 2)) = urlscan_session 3 2"
    by (simp add: init_def Let_def)
  from execute_session_scope
         [of "Some ''secret-key''" None 3 2 example_interpreter net_timeout example_client
             "''GET''" QUOTA_URL PNone PNone]
       execute_session_scope
         [of "Some ''secret-key''" None 3 2 example_interpreter net_ok example_client
             "''GET''" QUOTA_URL "PInt 7" PNone]
       h e i
  show ?thesis by auto
qed

section \<open>Fetching a result\<close>

text \<open>
  C6. For every identifier \<open>s\<close>, \<open>get_result\<close> issues exactly one request over the held
  session: a GET of \<^verbatim>\<open>https://urlscan.io/api/v1/result/\<close> followed by \<open>s\<close>, with the client's
  headers, no data (so no body) and no query parameters. Whatever response the transport
  returns for it, with whatever status code, is what \<open>get_result\<close> returns.
\<close>

theorem get_result_request:
  "filter is_request (fst (get_result interp net self s)) =
     [SessionRequest (session self)
        \<lparr>req_method = ''GET'', req_url = ''https://urlscan.io/api/v1/result/'' @ s,
         req_headers = headers self, req_data = PNone, req_params = PNone\<rparr>]
   \<and> API_URL = ''https://urlscan.io/api/v1''
   \<and> \<not> has_body \<lparr>req_method = ''GET'', req_url = ''https://urlscan.io/api/v1/result/'' @ s,
                  req_headers = headers self, req_data = PNone, req_params = PNone\<rparr>
   \<and> (\<forall>resp. net (session self)
                \<lparr>req_method = ''GET'', req_url = ''https://urlscan.io/api/v1/result/'' @ s,
                 req_headers = headers self, req_data = PNone, req_params = PNone\<rparr>
              = Inr resp
            \<longrightarrow> snd (get_result interp net self s) = Inr (Some resp))"
  by (auto simp: get_result_def execute_def API_URL_value has_body_def Let_def
      split: sum.splits transport_exception.splits py_exception.splits)

theorem get_result_request_witness:
  "filter is_request (fst (get_result example_interpreter net_not_found example_client ''abc-123'')) =
     [SessionRequest (session example_client)
        \<lparr>req_method = ''GET'', req_url = ''https://urlscan.io/api/v1/result/abc-123'',
         req_headers = [(''Content-Type'', ''application/json''),
                        (''User-Agent'', ''BobSecurityScanner/v1''),
                        (''API-Key'', ''secret-key'')],
         req_data = PNone, req_params = PNone\<rparr>]
   \<and> net_not_found (session example_client)
        \<lparr>req_method = ''GET'', req_url = ''https://urlscan.io/api/v1/result/abc-123'',
         req_headers = headers example_client, req_data = PNone, req_params = PNone\<rparr>
       = Inr \<lparr>status_code = 404, resp_headers = [], content = ''Not Found''\<rparr>
   \<and> snd (get_result example_interpreter net_not_found example_client ''abc-123'')
       = Inr (Some \<lparr>status_code = 404, resp_headers = [], content = ''Not Found''\<rparr>)"
proof -
  have n: "net_not_found (session example_client)
        \<lparr>req_method = ''GET'', req_url = ''https://urlscan.io/api/v1/result/'' @ ''abc-123'',
         req_headers = headers example_client, req_data = PNone, req_params = PNone\<rparr>
       = Inr \<lparr>status_code = 404, resp_headers = [], content = ''Not Found''\<rparr>"
    by (simp add: net_not_found_def)
  from get_result_request [of example_interpreter net_not_found example_client "''abc-123''"] n
  show ?thesis by (simp add: example_client_value)
qed

section \<open>The header set\<close>

text \<open>
  C8. The header set is built by the constructor from its arguments: the JSON content
  type, the user agent (the library's default when none is given) and, exactly when an API
  key was supplied (the constructor's own test: the key is neither \<^verbatim>\<open>None\<close> nor empty, otherwise
  it warns that no key was provided), the \<^verbatim>\<open>API-Key\<close> header holding that key; there is no
  other header. No method assigns to it afterwards: \<open>execute\<close> only reads the client, and
  every request it issues carries the client's header set as it is.
\<close>

theorem headers_invariant:
  "map_of (headers (snd (init api_key user_agent retries backoff))) ''Content-Type''
     = Some ''application/json''
   \<and> map_of (headers (snd (init api_key user_agent retries backoff))) ''User-Agent''
       = Some (case user_agent of
                 None \<Rightarrow> ''BasicUrlscanPy/v1''
               | Some ua \<Rightarrow> if ua = [] then ''BasicUrlscanPy/v1'' else ua)
   \<and> (''API-Key'' \<in> set (map fst (headers (snd (init api_key user_agent retries backoff))))
        = truthy_str api_key)
   \<and> (truthy_str api_key \<longrightarrow>
        map_of (headers (snd (init api_key user_agent retries backoff))) ''API-Key'' = api_key)
   \<and> set (map fst (headers (snd (init api_key user_agent retries backoff))))
        \<subseteq> {''Content-Type'', ''User-Agent'', ''API-Key''}
   \<and> distinct (map fst (headers (snd (init api_key user_agent retries backoff))))
   \<and> (\<forall>s r. SessionRequest s r \<in> set (fst (execute interp net self method url payload params))
          \<longrightarrow> req_headers r = headers self)"
proof -
  have i: "map_of (headers (snd (init api_key user_agent retries backoff))) ''Content-Type''
     = Some ''application/json''
   \<and> map_of (headers (snd (init api_key user_agent retries backoff))) ''User-Agent''
       = Some (case user_agent of
                 None \<Rightarrow> ''BasicUrlscanPy/v1''
               | Some ua \<Rightarrow> if ua = [] then ''BasicUrlscanPy/v1'' else ua)
   \<and> (''API-Key'' \<in> set (map fst (headers (snd (init api_key user_agent retries backoff))))
        = truthy_str api_key)
   \<and> (truthy_str api_key \<longrightarrow>
        map_of (headers (snd (init api_key user_agent retries backoff))) ''API-Key'' = api_key)
   \<and> set (map fst (headers (snd (init api_key user_agent retries backoff))))
        \<subseteq> {''Content-Type'', ''User-Agent'', ''API-Key''}
   \<and> distinct (map fst (headers (snd (init api_key user_agent retries backoff))))"
    by (cases api_key; cases user_agent) (simp_all add: init_def Let_def)
  have e: "\<forall>s r. SessionRequest s r \<in> set (fst (execute interp net self method url payload params))
          \<longrightarrow> req_headers r = headers self"
    by (auto simp: execute_def Let_def split: sum.splits transport_exception.splits py_exception.splits if_splits)
  from i e show ?thesis by blast
qed

theorem headers_invariant_witness:
  "truthy_str (Some ''secret-key'')
   \<and> map_of (headers (snd (init (Some ''secret-key'') None 5 1))) ''API-Key'' = Some ''secret-key''
   \<and> map_of (headers (snd (init (Some ''secret-key'') None 5 1))) ''User-Agent''
       = Some ''BasicUrlscanPy/v1''
   \<and> SessionRequest (session example_client)
        \<lparr>req_method = ''GET'', req_url = QUOTA_URL, req_headers = headers example_client,
         req_data = PNone, req_params = PNone\<rparr>
       \<in> set (fst (execute example_interpreter net_ok example_client ''GET'' QUOTA_URL PNone PNone))
   \<and> req_headers
        \<lparr>req_method = ''GET'', req_url = QUOTA_URL, req_headers = headers example_client,
         req_data = PNone, req_params = PNone\<rparr>
       = [(''Content-Type'', ''application/json''), (''User-Agent'', ''BobSecurityScanner/v1''),
          (''API-Key'', ''secret-key'')]"
proof -
  have t: "truthy_str (Some ''secret-key'')" by simp
  have h: "SessionRequest (session example_client)
        \<lparr>req_method = ''GET'', req_url = QUOTA_URL, req_headers = headers example_client,
         req_data = PNone, req_params = PNone\<rparr>
       \<in> set (fst (execute example_interpreter net_ok example_client ''GET'' QUOTA_URL PNone PNone))"
    by (simp add: execute_def net_ok_def Let_def)
  from headers_invariant
         [of "Some ''secret-key''" None 5 1 example_interpreter net_ok example_client "''GET''" QUOTA_URL PNone PNone]
       t h
  show ?thesis by (simp add: example_client_value)
qed

section \<open>Validation in \<open>get_search\<close>\<close>

text \<open>
  C9. For every \<open>params\<close> that is not a dictionary, and for every dictionary without the
  key \<^verbatim>\<open>q\<close>, \<open>get_search\<close> raises a \<open>ValueError\<close> that says which of the two it was, and
  nothing has happened: \<open>execute\<close> was not called, the session was not entered and no
  request was issued.
\<close>

theorem get_search_validation:
  "(\<not> is_dict params \<longrightarrow>
      get_search interp net self params = ([], Inl (ValueError ''Params must be a dictionary'')))
   \<and> (\<not> dict_contains kvs (PStr ''q'') \<longrightarrow>
        get_search interp net self (PDict kvs) =
          ([], Inl (ValueError ''Params must contain a query to search for'')))"
  by (cases params) (simp_all add: get_search_def)

theorem get_search_validation_witness:
  "\<not> is_dict (PStr ''domain:example.com'')
   \<and> get_search example_interpreter net_ok example_client (PStr ''domain:example.com'')
       = ([], Inl (ValueError ''Params must be a dictionary''))
   \<and> \<not> dict_contains [(PStr ''size'', PInt 10)] (PStr ''q'')
   \<and> get_search example_interpreter net_ok example_client (PDict [(PStr ''size'', PInt 10)])
       = ([], Inl (ValueError ''Params must contain a query to search for''))"
proof -
  have a: "\<not> is_dict (PStr ''domain:example.com'')" by simp
  have b: "\<not> dict_contains [(PStr ''size'', PInt 10)] (PStr ''q'')"
    by (simp add: dict_contains_def)
  from get_search_validation
         [of "PStr ''domain:example.com''" example_interpreter net_ok example_client "[(PStr ''size'', PInt 10)]"]
       a b
  show ?thesis by simp
qed

section \<open>The empty dictionary as payload\<close>

text \<open>
  C10. When \<open>execute\<close> is called with the empty dictionary as payload, the payload is
  treated as absent: the error about the payload's type is not raised, nothing is
  serialized and no \<open>UrlscanInvalidPayload\<close> is raised, and any request the call issues
  carries the empty dictionary itself as its data, not a JSON text, hence has no body. The
  request is issued whenever \<open>params\<close> passes its own check.
\<close>

theorem execute_empty_dict_payload:
  "snd (execute interp net self method url (PDict []) params)
     \<noteq> Inl (ValueError ''Payload must be a dictionary'')
   \<and> (\<forall>m. snd (execute interp net self method url (PDict []) params) \<noteq> Inl (UrlscanInvalidPayload m))
   \<and> (\<forall>s r. SessionRequest s r \<in> set (fst (execute interp net self method url (PDict []) params))
          \<longrightarrow> req_data r = PDict [] \<and> \<not> has_body r)
   \<and> (\<not> (truthy params \<and> \<not> is_dict params) \<longrightarrow>
        SessionRequest (session self)
          \<lparr>req_method = method, req_url = url, req_headers = headers self,
           req_data = PDict [], req_params = params\<rparr>
        \<in> set (fst (execute interp net self method url (PDict []) params)))"
  by (auto simp: execute_def has_body_def Let_def split: sum.splits transport_exception.splits py_exception.splits)

theorem execute_empty_dict_payload_witness:
  "\<not> (truthy PNone \<and> \<not> is_dict PNone)
   \<and> SessionRequest (session example_client)
        \<lparr>req_method = ''POST'', req_url = API_URL @ ''/scan/'', req_headers = headers example_client,
         req_data = PDict [], req_params = PNone\<rparr>
       \<in> set (fst (execute example_interpreter net_ok example_client ''POST'' (API_URL @ ''/scan/'') (PDict []) PNone))
   \<and> \<not> has_body
        \<lparr>req_method = ''POST'', req_url = API_URL @ ''/scan/'', req_headers = headers example_client,
         req_data = PDict [], req_params = PNone\<rparr>"
proof -
  have p: "\<not> (truthy PNone \<and> \<not> is_dict PNone)" by simp
  from execute_empty_dict_payload
         [of example_interpreter net_ok example_client "''POST''" "API_URL @ ''/scan/''" PNone]
       p
  show ?thesis by blast
qed

section \<open>What the factory configures\<close>

text \<open>
  The session the factory returns has one mount made by this code, on the prefix
  \<^verbatim>\<open>https://\<close>: an adapter whose retry strategy has the retry count as its total, the
  backoff base as its backoff factor, and the five statuses as its forced list. How the
  networking library acts on that strategy is outside this development.
\<close>

lemma urlscan_session_config:
  "mounts (urlscan_session retries backoff) =
     [(''https://'',
       \<lparr>max_retries =
          \<lparr>total = retries, backoff_factor = backoff,
           status_forcelist = [429, 500, 502, 503, 504]\<rparr>\<rparr>)]"
  by (simp add: urlscan_session_def STATUSES_def)



end
